theory Spec2Isabelle
  imports Main
begin

section \<open>Values shared by the client wrapper and the proxy server\<close>

text \<open>
  JavaScript values that the code inspects are JSON documents. A property that is absent
  (\<^verbatim>\<open>undefined\<close>) is \<open>None\<close>; \<^verbatim>\<open>null\<close> is \<open>JNull\<close>. Numbers are
  restricted to integers, which is all the code compares against (status and result codes).
  An object is an association list; the first binding of a key is the one that is read.
\<close>

datatype json =
    JNull
  | JBool bool
  | JNum int
  | JStr string
  | JArr "json list"
  | JObj "(string \<times> json) list"

text \<open>\<^verbatim>\<open>v?.k\<close>: optional chaining stops at \<^verbatim>\<open>undefined\<close> and \<^verbatim>\<open>null\<close>; the keys the
  code reads (\<^verbatim>\<open>result\<close>, \<^verbatim>\<open>result_code\<close>) exist on objects only.\<close>

fun get_prop :: "json option \<Rightarrow> string \<Rightarrow> json option" where
  "get_prop (Some (JObj kvs)) k = map_of kvs k"
| "get_prop (Some JNull) k = None"
| "get_prop (Some (JBool b)) k = None"
| "get_prop (Some (JNum n)) k = None"
| "get_prop (Some (JStr s)) k = None"
| "get_prop (Some (JArr vs)) k = None"
| "get_prop None k = None"

text \<open>JavaScript truthiness of a value in a condition.\<close>

fun truthy :: "json option \<Rightarrow> bool" where
  "truthy None = False"
| "truthy (Some JNull) = False"
| "truthy (Some (JBool b)) = b"
| "truthy (Some (JNum n)) = (n \<noteq> 0)"
| "truthy (Some (JStr s)) = (s \<noteq> [])"
| "truthy (Some (JArr vs)) = True"
| "truthy (Some (JObj kvs)) = True"

text \<open>Truthiness of what \<^verbatim>\<open>localStorage.getItem\<close> returns: \<^verbatim>\<open>null\<close> and the empty
  string are falsy.\<close>

fun truthy_str :: "string option \<Rightarrow> bool" where
  "truthy_str None = False"
| "truthy_str (Some s) = (s \<noteq> [])"

text \<open>\<^verbatim>\<open>String.prototype.includes\<close>: \<open>str_includes s t\<close> holds when \<open>t\<close> occurs in \<open>s\<close>
  as a contiguous block.\<close>

fun starts_with :: "string \<Rightarrow> string \<Rightarrow> bool" where
  "starts_with s [] = True"
| "starts_with [] (c # t) = False"
| "starts_with (a # s) (c # t) = (a = c \<and> starts_with s t)"

fun str_includes :: "string \<Rightarrow> string \<Rightarrow> bool" where
  "str_includes [] t = (t = [])"
| "str_includes (a # s) t = (starts_with (a # s) t \<or> str_includes s t)"

text \<open>\<^verbatim>\<open>error.message?.includes(t)\<close> in a condition: a missing message is falsy.\<close>

fun msg_includes :: "string option \<Rightarrow> string \<Rightarrow> bool" where
  "msg_includes None t = False"
| "msg_includes (Some s) t = str_includes s t"


section \<open>The API client wrapper\<close>

subsection \<open>Configuration read when the module is loaded\<close>

text \<open>\<open>window_hostname\<close> is \<open>None\<close> where \<^verbatim>\<open>window\<close> is undefined (no browser).\<close>

record environment =
  NODE_ENV :: "string option"
  window_hostname :: "string option"

definition isProduction :: "environment \<Rightarrow> bool" where
  "isProduction env =
     (NODE_ENV env = Some ''production'' \<or>
      (case window_hostname env of
         None \<Rightarrow> False
       | Some h \<Rightarrow> str_includes h ''herokuapp.com''))"

definition FALLBACK_API_BASE_URL :: string where
  "FALLBACK_API_BASE_URL = ''https://mukkai-backend-api-f9dc2d5aad02.herokuapp.com''"

definition API_BASE_URL :: "environment \<Rightarrow> string" where
  "API_BASE_URL env =
     (if isProduction env then [] else ''https://mukkai-backend-api-f9dc2d5aad02.herokuapp.com'')"

subsection \<open>Requests, responses and errors\<close>

datatype http_method = GET | POST

text \<open>The configuration a request interceptor sees and the adapter sends.\<close>

record request =
  r_method :: http_method
  baseURL :: string
  url :: string
  headers :: "string \<rightharpoonup> string"
  req_data :: "json option"
  timeout :: nat
  withCredentials :: bool

text \<open>The optional per-call \<^verbatim>\<open>config\<close> argument of \<^verbatim>\<open>get\<close> and \<^verbatim>\<open>post\<close>.\<close>

record call_config =
  cfg_headers :: "string \<rightharpoonup> string"
  cfg_timeout :: "nat option"

record response =
  status :: nat
  data :: "json option"

record axios_error =
  code :: "string option"
  message :: "string option"
  config :: "request option"
  response :: "response option"

text \<open>The settings given to \<^verbatim>\<open>axios.create\<close>.\<close>

record instance_defaults =
  d_baseURL :: string
  d_timeout :: nat
  d_headers :: "string \<rightharpoonup> string"
  d_withCredentials :: bool

definition axiosInstance_defaults :: "environment \<Rightarrow> instance_defaults" where
  "axiosInstance_defaults env =
     \<lparr> d_baseURL = API_BASE_URL env,
       d_timeout = 15000,
       d_headers = [''Content-Type'' \<mapsto> ''application/json'', ''Accept'' \<mapsto> ''application/json''],
       d_withCredentials = False \<rparr>"

definition fallbackAxiosInstance_defaults :: instance_defaults where
  "fallbackAxiosInstance_defaults =
     \<lparr> d_baseURL = FALLBACK_API_BASE_URL,
       d_timeout = 15000,
       d_headers = [''Content-Type'' \<mapsto> ''application/json'', ''Accept'' \<mapsto> ''application/json''],
       d_withCredentials = False \<rparr>"

text \<open>The request an instance builds for \<^verbatim>\<open>instance.get(url, config)\<close> or
  \<^verbatim>\<open>instance.post(url, data, config)\<close>: the per-call settings override the instance's.\<close>

definition mergeConfig ::
  "instance_defaults \<Rightarrow> http_method \<Rightarrow> string \<Rightarrow> json option \<Rightarrow> call_config option \<Rightarrow> request" where
  "mergeConfig d m u body cfg =
     \<lparr> r_method = m,
       baseURL = d_baseURL d,
       url = u,
       headers = (case cfg of None \<Rightarrow> d_headers d | Some c \<Rightarrow> d_headers d ++ cfg_headers c),
       req_data = body,
       timeout = (case cfg of None \<Rightarrow> d_timeout d
                  | Some c \<Rightarrow> (case cfg_timeout c of None \<Rightarrow> d_timeout d | Some t \<Rightarrow> t)),
       withCredentials = d_withCredentials d \<rparr>"

subsection \<open>Browser state and the effects the client has on it\<close>

datatype client = PROXY | DIRECT

datatype event =
    Invoke client http_method string "json option" "call_config option"
  | Dispatch client request
  | RemoveItem string
  | SetHref string

text \<open>
  \<open>network\<close> is whatever decides the outcome of a dispatched request; an adapter maps it
  and the request to the outcome (a response the client accepts, or an error) and the
  network's next state. \<open>trace\<close> records, in order, each call of a client instance with its
  arguments, each request handed to the adapter, each \<^verbatim>\<open>localStorage.removeItem\<close> and each
  assignment to \<^verbatim>\<open>window.location.href\<close>.
\<close>

record 'w browser =
  localStorage :: "string \<rightharpoonup> string"
  location_href :: string
  network :: 'w
  trace :: "event list"

type_synonym 'w adapter = "'w \<Rightarrow> request \<Rightarrow> (axios_error + response) \<times> 'w"

subsection \<open>Interceptors\<close>

text \<open>The request interceptor installed on both instances (its \<^verbatim>\<open>name\<close> argument is used
  for logging only).\<close>

definition addRequestInterceptor :: "(string \<rightharpoonup> string) \<Rightarrow> request \<Rightarrow> request" where
  "addRequestInterceptor ls cfg =
     (let token = ls ''accessToken'';
          token = (if \<not> truthy_str token then ls ''storeUserAccessToken'' else token)
      in case token of
           None \<Rightarrow> cfg
         | Some t \<Rightarrow>
             if t \<noteq> [] then cfg\<lparr>headers := (headers cfg)(''authorization-token'' \<mapsto> t)\<rparr>
             else cfg)"

text \<open>The rejection handler of the response interceptor, installed on \<^verbatim>\<open>axiosInstance\<close>
  only. It always rejects with the error it was given.\<close>

definition response_onRejected ::
  "axios_error \<Rightarrow> 'w browser \<Rightarrow> (axios_error + response) \<times> 'w browser" where
  "response_onRejected error st =
     (let originalRequest = config error in
      if map_option status (response error) = Some 401 \<and> originalRequest \<noteq> None then
        (Inl error,
         st\<lparr>localStorage := (localStorage st)(''accessToken'' := None, ''refreshToken'' := None),
            location_href := ''/auth/login'',
            trace := trace st @
              [RemoveItem ''accessToken'', RemoveItem ''refreshToken'', SetHref ''/auth/login'']\<rparr>)
      else (Inl error, st))"

subsection \<open>The two client instances\<close>

definition axiosInstance_request ::
  "environment \<Rightarrow> 'w adapter \<Rightarrow> http_method \<Rightarrow> string \<Rightarrow> json option \<Rightarrow> call_config option \<Rightarrow>
   'w browser \<Rightarrow> (axios_error + response) \<times> 'w browser" where
  "axiosInstance_request env adapter m u body cfg st =
     (let req = addRequestInterceptor (localStorage st)
                  (mergeConfig (axiosInstance_defaults env) m u body cfg);
          sent = adapter (network st) req;
          st1 = st\<lparr>network := snd sent,
                   trace := trace st @ [Invoke PROXY m u body cfg, Dispatch PROXY req]\<rparr>
      in case fst sent of
           Inr resp \<Rightarrow> (Inr resp, st1)
         | Inl error \<Rightarrow> response_onRejected error st1)"

definition fallbackAxiosInstance_request ::
  "'w adapter \<Rightarrow> http_method \<Rightarrow> string \<Rightarrow> json option \<Rightarrow> call_config option \<Rightarrow>
   'w browser \<Rightarrow> (axios_error + response) \<times> 'w browser" where
  "fallbackAxiosInstance_request adapter m u body cfg st =
     (let req = addRequestInterceptor (localStorage st)
                  (mergeConfig fallbackAxiosInstance_defaults m u body cfg);
          sent = adapter (network st) req
      in (fst sent,
          st\<lparr>network := snd sent,
             trace := trace st @ [Invoke DIRECT m u body cfg, Dispatch DIRECT req]\<rparr>))"

subsection \<open>Connectivity probe\<close>

definition testBackendConnection ::
  "environment \<Rightarrow> 'w adapter \<Rightarrow> 'w browser \<Rightarrow> bool \<times> 'w browser" where
  "testBackendConnection env adapter st =
     (case axiosInstance_request env adapter GET ''/health'' None
             (Some \<lparr>cfg_headers = Map.empty, cfg_timeout = Some 5000\<rparr>) st of
        (Inr resp, st1) \<Rightarrow>
          if get_prop (get_prop (data resp) ''result'') ''result_code'' = Some (JNum 2003)
          then (True, st1)
          else (True, st1)
      | (Inl error, st1) \<Rightarrow>
          if get_prop (get_prop (case response error of None \<Rightarrow> None | Some r \<Rightarrow> data r) ''result'')
               ''result_code'' = Some (JNum 2003)
          then (True, st1)
          else if map_option status (response error) = Some 400 \<and>
                  truthy (get_prop (case response error of None \<Rightarrow> None | Some r \<Rightarrow> data r) ''result'')
          then (True, st1)
          else if map_option status (response error) = Some 401 \<or>
                  map_option status (response error) = Some 403
          then (True, st1)
          else (False, st1))"

subsection \<open>The wrapper with fallback\<close>

definition axiosWithFallback_get ::
  "environment \<Rightarrow> 'w adapter \<Rightarrow> string \<Rightarrow> call_config option \<Rightarrow>
   'w browser \<Rightarrow> (axios_error + response) \<times> 'w browser" where
  "axiosWithFallback_get env adapter u cfg st =
     (case axiosInstance_request env adapter GET u None cfg st of
        (Inr resp, st1) \<Rightarrow> (Inr resp, st1)
      | (Inl error, st1) \<Rightarrow>
          if (code error = Some ''ERR_NETWORK'' \<or> msg_includes (message error) ''CORS'' \<or>
              msg_includes (message error) ''blocked'') \<and> isProduction env
          then (case fallbackAxiosInstance_request adapter GET u None cfg st1 of
                  (Inr resp, st2) \<Rightarrow> (Inr resp, st2)
                | (Inl fallbackError, st2) \<Rightarrow> (Inl fallbackError, st2))
          else (Inl error, st1))"

definition axiosWithFallback_post ::
  "environment \<Rightarrow> 'w adapter \<Rightarrow> string \<Rightarrow> json option \<Rightarrow> call_config option \<Rightarrow>
   'w browser \<Rightarrow> (axios_error + response) \<times> 'w browser" where
  "axiosWithFallback_post env adapter u body cfg st =
     (case axiosInstance_request env adapter POST u body cfg st of
        (Inr resp, st1) \<Rightarrow> (Inr resp, st1)
      | (Inl error, st1) \<Rightarrow>
          if (code error = Some ''ERR_NETWORK'' \<or> msg_includes (message error) ''CORS'' \<or>
              msg_includes (message error) ''blocked'') \<and> isProduction env
          then (case fallbackAxiosInstance_request adapter POST u body cfg st1 of
                  (Inr fallbackResult, st2) \<Rightarrow> (Inr fallbackResult, st2)
                | (Inl fallbackError, st2) \<Rightarrow> (Inl fallbackError, st2))
          else (Inl error, st1))"


section \<open>The proxy and static server\<close>

text \<open>
  Strings stand for their UTF-8 bytes, so \<^verbatim>\<open>Buffer.byteLength\<close> of a string is its
  \<open>length\<close>. A header value is a string or, as for \<^verbatim>\<open>Content-Length\<close>, a number.
\<close>

datatype header_value = HStr string | HNum nat

text \<open>The incoming request as the handlers read it; \<open>body\<close> is \<^verbatim>\<open>req.body\<close> as the body
  parsers left it.\<close>

record incoming =
  req_method :: string
  originalUrl :: string
  req_headers :: "string \<rightharpoonup> header_value"
  body :: "json option"

text \<open>The outgoing request to the upstream: its headers and the chunks written to it.\<close>

record proxy_request =
  p_method :: string
  p_path :: string
  p_headers :: "string \<rightharpoonup> header_value"
  p_written :: "string list"

record proxy_error =
  err_message :: string

datatype payload = Json json | Raw string

record server_response =
  statusCode :: nat
  sent :: "payload option"

record upstream_response =
  up_statusCode :: nat
  up_body :: string

definition API_TARGET :: string where
  "API_TARGET = ''https://mukkai-backend-api-f9dc2d5aad02.herokuapp.com''"

subsection \<open>Handlers of the \<^verbatim>\<open>/api\<close> route\<close>

definition onProxyReq_api :: "incoming \<Rightarrow> proxy_request \<Rightarrow> proxy_request" where
  "onProxyReq_api req proxyReq =
     (if truthy (body req) \<and> req_method req = ''POST''
      then proxyReq\<lparr>p_headers := (p_headers proxyReq)(''Content-Type'' \<mapsto> HStr ''application/json'')\<rparr>
      else proxyReq)"

definition onError_api :: "proxy_error \<Rightarrow> incoming \<Rightarrow> server_response \<Rightarrow> server_response" where
  "onError_api err req res =
     res\<lparr>statusCode := 500, sent := Some (Json (JObj [(''error'', JStr ''Proxy error'')]))\<rparr>"

subsection \<open>Handlers of the \<^verbatim>\<open>/open-api\<close> route\<close>

text \<open>\<open>stringify\<close> stands for \<^verbatim>\<open>JSON.stringify\<close>.\<close>

definition onProxyReq_open_api ::
  "(json \<Rightarrow> string) \<Rightarrow> incoming \<Rightarrow> proxy_request \<Rightarrow> proxy_request" where
  "onProxyReq_open_api stringify req proxyReq =
     (case body req of
        None \<Rightarrow> proxyReq
      | Some b \<Rightarrow>
          if truthy (Some b) \<and> req_method req = ''POST''
          then (let bodyData = stringify b in
                proxyReq\<lparr>p_headers := (p_headers proxyReq)
                            (''Content-Type'' \<mapsto> HStr ''application/json'',
                             ''Content-Length'' \<mapsto> HNum (length bodyData)),
                         p_written := p_written proxyReq @ [bodyData]\<rparr>)
          else proxyReq)"

definition onError_open_api :: "proxy_error \<Rightarrow> incoming \<Rightarrow> server_response \<Rightarrow> server_response" where
  "onError_open_api err req res =
     res\<lparr>statusCode := 500,
         sent := Some (Json (JObj [(''error'', JStr ''Proxy error''),
                                   (''message'', JStr (err_message err))]))\<rparr>"

subsection \<open>The proxy middleware\<close>

text \<open>
  Modelled from the spec: \<^verbatim>\<open>createProxyMiddleware\<close> comes from a package whose source is
  not part of the repository; the spec treats it as an off-the-shelf reverse proxy. What is
  modelled is the contract the two routes rely on: the outgoing request keeps the method,
  the path and the headers of the incoming one, \<^verbatim>\<open>onProxyReq\<close> runs on it before it is
  sent, the upstream's status and body are passed through, and a forwarding failure is
  handed to \<^verbatim>\<open>onError\<close>. \<open>forward\<close> is the network's answer to the outgoing request.
  The second component of the result lists the outgoing requests that were sent.
\<close>

definition proxy_request_of :: "incoming \<Rightarrow> proxy_request" where
  "proxy_request_of req =
     \<lparr>p_method = req_method req, p_path = originalUrl req,
      p_headers = req_headers req, p_written = []\<rparr>"

definition createProxyMiddleware ::
  "(incoming \<Rightarrow> proxy_request \<Rightarrow> proxy_request) \<Rightarrow>
   (proxy_error \<Rightarrow> incoming \<Rightarrow> server_response \<Rightarrow> server_response) \<Rightarrow>
   (proxy_request \<Rightarrow> proxy_error + upstream_response) \<Rightarrow>
   incoming \<Rightarrow> server_response \<Rightarrow> server_response \<times> proxy_request list" where
  "createProxyMiddleware onProxyReq onError forward req res =
     (let proxyReq = onProxyReq req (proxy_request_of req)
      in case forward proxyReq of
           Inr up \<Rightarrow> (res\<lparr>statusCode := up_statusCode up, sent := Some (Raw (up_body up))\<rparr>, [proxyReq])
         | Inl err \<Rightarrow> (onError err req res, [proxyReq]))"

definition api_route ::
  "(proxy_request \<Rightarrow> proxy_error + upstream_response) \<Rightarrow>
   incoming \<Rightarrow> server_response \<Rightarrow> server_response \<times> proxy_request list" where
  "api_route = createProxyMiddleware onProxyReq_api onError_api"

definition open_api_route ::
  "(json \<Rightarrow> string) \<Rightarrow> (proxy_request \<Rightarrow> proxy_error + upstream_response) \<Rightarrow>
   incoming \<Rightarrow> server_response \<Rightarrow> server_response \<times> proxy_request list" where
  "open_api_route stringify = createProxyMiddleware (onProxyReq_open_api stringify) onError_open_api"


section \<open>Reading the trace\<close>

definition new_events :: "'w browser \<Rightarrow> 'w browser \<Rightarrow> event list" where
  "new_events st st' = drop (length (trace st)) (trace st')"

fun invocations :: "client \<Rightarrow> event list \<Rightarrow> event list" where
  "invocations cl [] = []"
| "invocations cl (Invoke cl' m u b c # evs) =
     (if cl' = cl then Invoke cl' m u b c # invocations cl evs else invocations cl evs)"
| "invocations cl (Dispatch cl' r # evs) = invocations cl evs"
| "invocations cl (RemoveItem k # evs) = invocations cl evs"
| "invocations cl (SetHref h # evs) = invocations cl evs"

fun dispatched :: "client \<Rightarrow> event list \<Rightarrow> request list" where
  "dispatched cl [] = []"
| "dispatched cl (Dispatch cl' r # evs) =
     (if cl' = cl then r # dispatched cl evs else dispatched cl evs)"
| "dispatched cl (Invoke cl' m u b c # evs) = dispatched cl evs"
| "dispatched cl (RemoveItem k # evs) = dispatched cl evs"
| "dispatched cl (SetHref h # evs) = dispatched cl evs"

fun removed_items :: "event list \<Rightarrow> string list" where
  "removed_items [] = []"
| "removed_items (RemoveItem k # evs) = k # removed_items evs"
| "removed_items (Invoke cl m u b c # evs) = removed_items evs"
| "removed_items (Dispatch cl r # evs) = removed_items evs"
| "removed_items (SetHref h # evs) = removed_items evs"

fun navigations :: "event list \<Rightarrow> string list" where
  "navigations [] = []"
| "navigations (SetHref h # evs) = h # navigations evs"
| "navigations (Invoke cl m u b c # evs) = navigations evs"
| "navigations (Dispatch cl r # evs) = navigations evs"
| "navigations (RemoveItem k # evs) = navigations evs"

text \<open>The request each instance hands to its adapter, the adapter's answer to it, and the
  call of an instance chosen by name.\<close>

definition client_defaults :: "environment \<Rightarrow> client \<Rightarrow> instance_defaults" where
  "client_defaults env cl =
     (case cl of PROXY \<Rightarrow> axiosInstance_defaults env | DIRECT \<Rightarrow> fallbackAxiosInstance_defaults)"

definition outgoing ::
  "environment \<Rightarrow> client \<Rightarrow> http_method \<Rightarrow> string \<Rightarrow> json option \<Rightarrow> call_config option \<Rightarrow>
   'w browser \<Rightarrow> request" where
  "outgoing env cl m u d cfg st =
     addRequestInterceptor (localStorage st) (mergeConfig (client_defaults env cl) m u d cfg)"

definition answer ::
  "environment \<Rightarrow> 'w adapter \<Rightarrow> client \<Rightarrow> http_method \<Rightarrow> string \<Rightarrow> json option \<Rightarrow>
   call_config option \<Rightarrow> 'w browser \<Rightarrow> axios_error + response" where
  "answer env adapter cl m u d cfg st =
     fst (adapter (network st) (outgoing env cl m u d cfg st))"

definition client_request ::
  "environment \<Rightarrow> 'w adapter \<Rightarrow> client \<Rightarrow> http_method \<Rightarrow> string \<Rightarrow> json option \<Rightarrow>
   call_config option \<Rightarrow> 'w browser \<Rightarrow> (axios_error + response) \<times> 'w browser" where
  "client_request env adapter cl =
     (case cl of PROXY \<Rightarrow> axiosInstance_request env adapter
               | DIRECT \<Rightarrow> fallbackAxiosInstance_request adapter)"

definition rejected_with_status :: "nat \<Rightarrow> axios_error + response \<Rightarrow> bool" where
  "rejected_with_status n out =
     (case out of Inr resp \<Rightarrow> False | Inl e \<Rightarrow> map_option status (response e) = Some n)"

text \<open>The retry condition of the wrapper.\<close>

definition retry_eligible :: "environment \<Rightarrow> axios_error \<Rightarrow> bool" where
  "retry_eligible env e =
     (isProduction env \<and>
      (code e = Some ''ERR_NETWORK'' \<or> msg_includes (message e) ''CORS'' \<or>
       msg_includes (message e) ''blocked''))"


text \<open>The state right after an instance has handed its request to the adapter.\<close>

definition after_dispatch ::
  "environment \<Rightarrow> 'w adapter \<Rightarrow> client \<Rightarrow> http_method \<Rightarrow> string \<Rightarrow> json option \<Rightarrow>
   call_config option \<Rightarrow> 'w browser \<Rightarrow> 'w browser" where
  "after_dispatch env adapter cl m u d cfg st =
     st\<lparr>network := snd (adapter (network st) (outgoing env cl m u d cfg st)),
        trace := trace st @ [Invoke cl m u d cfg, Dispatch cl (outgoing env cl m u d cfg st)]\<rparr>"

text \<open>Both wrapper operations at once: \<^verbatim>\<open>get\<close> takes no data, \<^verbatim>\<open>post\<close> passes its data on.\<close>

definition wrapper_call ::
  "environment \<Rightarrow> 'w adapter \<Rightarrow> http_method \<Rightarrow> string \<Rightarrow> json option \<Rightarrow> call_config option \<Rightarrow>
   'w browser \<Rightarrow> (axios_error + response) \<times> 'w browser" where
  "wrapper_call env adapter m u d cfg =
     (case m of GET \<Rightarrow> axiosWithFallback_get env adapter u cfg
              | POST \<Rightarrow> axiosWithFallback_post env adapter u d cfg)"

definition payload_of :: "http_method \<Rightarrow> json option \<Rightarrow> json option" where
  "payload_of m d = (case m of GET \<Rightarrow> None | POST \<Rightarrow> d)"

text \<open>The per-call configuration of the connectivity probe.\<close>

definition probe_config :: "call_config option" where
  "probe_config = Some \<lparr>cfg_headers = Map.empty, cfg_timeout = Some 5000\<rparr>"


section \<open>Concrete inputs\<close>

definition env_production :: environment where
  "env_production = \<lparr>NODE_ENV = Some ''production'', window_hostname = Some ''shop.example.com''\<rparr>"

definition env_development :: environment where
  "env_development = \<lparr>NODE_ENV = Some ''development'', window_hostname = Some ''localhost''\<rparr>"

definition env_heroku_preview :: environment where
  "env_heroku_preview =
     \<lparr>NODE_ENV = Some ''development'', window_hostname = Some ''mukkai-preview.herokuapp.com''\<rparr>"

definition browser0 :: "unit browser" where
  "browser0 =
     \<lparr>localStorage = [''accessToken'' \<mapsto> ''user-token'', ''refreshToken'' \<mapsto> ''refresh-token'',
                       ''storeUserAccessToken'' \<mapsto> ''owner-token''],
      location_href = ''/orders'', network = (), trace = []\<rparr>"

definition ok_response :: response where
  "ok_response = \<lparr>status = 200, data = Some (JObj [(''body'', JArr [])])\<rparr>"

definition network_error :: "request \<Rightarrow> axios_error" where
  "network_error req =
     \<lparr>code = Some ''ERR_NETWORK'', message = Some ''Network Error'', config = Some req,
      response = None\<rparr>"

definition timeout_error :: "request \<Rightarrow> axios_error" where
  "timeout_error req =
     \<lparr>code = Some ''ECONNABORTED'', message = Some ''timeout of 15000ms exceeded'',
      config = Some req, response = None\<rparr>"

definition status_error :: "nat \<Rightarrow> request \<Rightarrow> axios_error" where
  "status_error n req =
     \<lparr>code = Some (if n < 500 then ''ERR_BAD_REQUEST'' else ''ERR_BAD_RESPONSE''),
      message = Some ''Request failed'', config = Some req,
      response = Some \<lparr>status = n,
        data = Some (JObj [(''result'', JObj [(''result_code'', JNum 5000)])])\<rparr>\<rparr>"

text \<open>Networks: the proxy unreachable and the backend fine; both unreachable, each in its
  own way; every request answered with a fixed error status; the proxy unreachable and the
  backend answering 401; a 401 whose error lacks its \<^verbatim>\<open>config\<close>; every request
  answered with a success.\<close>

definition net_proxy_down :: "unit adapter" where
  "net_proxy_down w req =
     (if baseURL req = [] then (Inl (network_error req), w) else (Inr ok_response, w))"

definition net_all_down :: "unit adapter" where
  "net_all_down w req =
     (if baseURL req = [] then (Inl (network_error req), w) else (Inl (timeout_error req), w))"

definition net_status :: "nat \<Rightarrow> unit adapter" where
  "net_status n w req = (Inl (status_error n req), w)"

definition net_proxy_down_backend_401 :: "unit adapter" where
  "net_proxy_down_backend_401 w req =
     (if baseURL req = [] then (Inl (network_error req), w) else (Inl (status_error 401 req), w))"

definition net_401_without_config :: "unit adapter" where
  "net_401_without_config w req = (Inl ((status_error 401 req)\<lparr>config := None\<rparr>), w)"

definition net_ok :: "unit adapter" where
  "net_ok w req = (Inr ok_response, w)"

definition post_api_orders :: incoming where
  "post_api_orders =
     \<lparr>req_method = ''POST'', originalUrl = ''/api/orders'',
      req_headers = [''content-type'' \<mapsto> HStr ''application/json''],
      body = Some (JObj [(''menuId'', JNum 7), (''count'', JNum 2)])\<rparr>"

definition upstream_refuses :: "proxy_request \<Rightarrow> proxy_error + upstream_response" where
  "upstream_refuses proxyReq = Inl \<lparr>err_message = ''connect ECONNREFUSED''\<rparr>"

definition res0 :: server_response where
  "res0 = \<lparr>statusCode = 200, sent = None\<rparr>"


text \<open>A serializer to stand for \<^verbatim>\<open>JSON.stringify\<close> in examples: compact output, for
  documents whose strings need no escaping.\<close>

fun decimal :: "nat \<Rightarrow> string" where
  "decimal n =
     (if n < 10 then [''0123456789'' ! n]
      else decimal (n div 10) @ [''0123456789'' ! (n mod 10)])"

fun compact_json :: "json \<Rightarrow> string"
  and compact_items :: "json list \<Rightarrow> string"
  and compact_members :: "(string \<times> json) list \<Rightarrow> string" where
  "compact_json JNull = ''null''"
| "compact_json (JBool b) = (if b then ''true'' else ''false'')"
| "compact_json (JNum n) = (if n < 0 then ''-'' @ decimal (nat (- n)) else decimal (nat n))"
| "compact_json (JStr s) = [CHR 0x22] @ s @ [CHR 0x22]"
| "compact_json (JArr vs) = ''['' @ compact_items vs @ '']''"
| "compact_json (JObj kvs) = ''{'' @ compact_members kvs @ ''}''"
| "compact_items [] = []"
| "compact_items [v] = compact_json v"
| "compact_items (v # w # vs) = compact_json v @ '','' @ compact_items (w # vs)"
| "compact_members [] = []"
| "compact_members [(k, v)] = [CHR 0x22] @ k @ [CHR 0x22] @ '':'' @ compact_json v"
| "compact_members ((k, v) # kv # kvs) =
     [CHR 0x22] @ k @ [CHR 0x22] @ '':'' @ compact_json v @ '','' @ compact_members (kv # kvs)"


section \<open>Properties\<close>

subsection \<open>Substring search\<close>

lemma starts_with_iff: "starts_with s t \<longleftrightarrow> (\<exists>q. s = t @ q)"
  by (induction s t rule: starts_with.induct) auto

lemma str_includes_iff: "str_includes s t \<longleftrightarrow> (\<exists>p q. s = p @ t @ q)"
proof (induction s)
  case Nil
  then show ?case by auto
next
  case (Cons a s)
  show ?case
  proof
    assume "str_includes (a # s) t"
    then consider "starts_with (a # s) t" | "str_includes s t" by auto
    then show "\<exists>p q. a # s = p @ t @ q"
    proof cases
      case 1
      then obtain q where "a # s = t @ q" using starts_with_iff by blast
      then have "a # s = [] @ t @ q" by simp
      then show ?thesis by blast
    next
      case 2
      then obtain p q where "s = p @ t @ q" using Cons.IH by blast
      then have "a # s = (a # p) @ t @ q" by simp
      then show ?thesis by blast
    qed
  next
    assume "\<exists>p q. a # s = p @ t @ q"
    then obtain p q where pq: "a # s = p @ t @ q" by blast
    show "str_includes (a # s) t"
    proof (cases p)
      case Nil
      with pq have "starts_with (a # s) t" using starts_with_iff by auto
      then show ?thesis by simp
    next
      case (Cons b p')
      with pq have "s = p' @ t @ q" by simp
      then have "str_includes s t" using Cons.IH by blast
      then show ?thesis by simp
    qed
  qed
qed

subsection \<open>How the instances and the wrapper unfold\<close>

lemma primary_resolved:
  "answer env adapter PROXY m u d cfg st = Inr r \<Longrightarrow>
   axiosInstance_request env adapter m u d cfg st = (Inr r, after_dispatch env adapter PROXY m u d cfg st)"
  by (simp add: axiosInstance_request_def answer_def outgoing_def client_defaults_def
      after_dispatch_def Let_def)

lemma primary_rejected:
  "answer env adapter PROXY m u d cfg st = Inl e \<Longrightarrow>
   axiosInstance_request env adapter m u d cfg st =
     response_onRejected e (after_dispatch env adapter PROXY m u d cfg st)"
  by (simp add: axiosInstance_request_def answer_def outgoing_def client_defaults_def
      after_dispatch_def Let_def)

lemma fallback_request_eq:
  "fallbackAxiosInstance_request adapter m u d cfg st =
     (answer env adapter DIRECT m u d cfg st, after_dispatch env adapter DIRECT m u d cfg st)"
  by (simp add: fallbackAxiosInstance_request_def answer_def outgoing_def client_defaults_def
      after_dispatch_def Let_def)

lemma fst_onRejected: "fst (response_onRejected e st) = Inl e"
  by (simp add: response_onRejected_def Let_def)

lemma fst_primary:
  "fst (axiosInstance_request env adapter m u d cfg st) = answer env adapter PROXY m u d cfg st"
  by (cases "answer env adapter PROXY m u d cfg st")
     (simp_all add: primary_resolved primary_rejected fst_onRejected)

lemma trace_after_dispatch:
  "trace (after_dispatch env adapter cl m u d cfg st) =
     trace st @ [Invoke cl m u d cfg, Dispatch cl (outgoing env cl m u d cfg st)]"
  by (simp add: after_dispatch_def)

lemma storage_after_dispatch:
  "localStorage (after_dispatch env adapter cl m u d cfg st) = localStorage st"
  "location_href (after_dispatch env adapter cl m u d cfg st) = location_href st"
  by (simp_all add: after_dispatch_def)

lemma trace_onRejected:
  "trace (snd (response_onRejected e st)) =
     trace st @ (if map_option status (response e) = Some 401 \<and> config e \<noteq> None
                 then [RemoveItem ''accessToken'', RemoveItem ''refreshToken'', SetHref ''/auth/login'']
                 else [])"
  by (simp add: response_onRejected_def Let_def)

lemma storage_onRejected:
  "localStorage (snd (response_onRejected e st)) =
     (if map_option status (response e) = Some 401 \<and> config e \<noteq> None
      then (localStorage st)(''accessToken'' := None, ''refreshToken'' := None)
      else localStorage st)"
  by (auto simp: response_onRejected_def Let_def)

lemma new_events_append [simp]: "trace st' = trace st @ evs \<Longrightarrow> new_events st st' = evs"
  by (simp add: new_events_def)

lemma invocations_append [simp]: "invocations cl (xs @ ys) = invocations cl xs @ invocations cl ys"
  by (induction cl xs rule: invocations.induct) auto

lemma dispatched_append [simp]: "dispatched cl (xs @ ys) = dispatched cl xs @ dispatched cl ys"
  by (induction cl xs rule: dispatched.induct) auto

lemma removed_items_append [simp]: "removed_items (xs @ ys) = removed_items xs @ removed_items ys"
  by (induction xs rule: removed_items.induct) auto

lemma navigations_append [simp]: "navigations (xs @ ys) = navigations xs @ navigations ys"
  by (induction xs rule: navigations.induct) auto

lemma trace_primary:
  "trace (snd (axiosInstance_request env adapter m u d cfg st)) =
     trace st @ [Invoke PROXY m u d cfg, Dispatch PROXY (outgoing env PROXY m u d cfg st)] @
       (case answer env adapter PROXY m u d cfg st of
          Inr r \<Rightarrow> []
        | Inl e \<Rightarrow> if map_option status (response e) = Some 401 \<and> config e \<noteq> None
                   then [RemoveItem ''accessToken'', RemoveItem ''refreshToken'', SetHref ''/auth/login'']
                   else [])"
  by (cases "answer env adapter PROXY m u d cfg st")
     (simp_all add: primary_resolved primary_rejected trace_onRejected trace_after_dispatch)

lemma trace_fallback:
  "trace (snd (fallbackAxiosInstance_request adapter m u d cfg st)) =
     trace st @ [Invoke DIRECT m u d cfg, Dispatch DIRECT (outgoing env DIRECT m u d cfg st)]"
  by (simp add: fallback_request_eq [of _ _ _ _ _ _ env] trace_after_dispatch)

lemma storage_fallback:
  "localStorage (snd (fallbackAxiosInstance_request adapter m u d cfg st)) = localStorage st"
  by (simp add: fallbackAxiosInstance_request_def Let_def)

lemma get_eq:
  "axiosWithFallback_get env adapter u cfg st =
     (let p = axiosInstance_request env adapter GET u None cfg st in
      case fst p of
        Inr r \<Rightarrow> p
      | Inl e \<Rightarrow> if retry_eligible env e
                 then fallbackAxiosInstance_request adapter GET u None cfg (snd p)
                 else p)"
  by (auto simp: axiosWithFallback_get_def retry_eligible_def Let_def split: prod.splits sum.splits)

lemma post_eq:
  "axiosWithFallback_post env adapter u d cfg st =
     (let p = axiosInstance_request env adapter POST u d cfg st in
      case fst p of
        Inr r \<Rightarrow> p
      | Inl e \<Rightarrow> if retry_eligible env e
                 then fallbackAxiosInstance_request adapter POST u d cfg (snd p)
                 else p)"
  by (auto simp: axiosWithFallback_post_def retry_eligible_def Let_def split: prod.splits sum.splits)

lemma wrapper_call_eq:
  "wrapper_call env adapter m u d cfg st =
     (let p = axiosInstance_request env adapter m u (payload_of m d) cfg st in
      case fst p of
        Inr r \<Rightarrow> p
      | Inl e \<Rightarrow> if retry_eligible env e
                 then fallbackAxiosInstance_request adapter m u (payload_of m d) cfg (snd p)
                 else p)"
  by (cases m) (auto simp: wrapper_call_def payload_of_def get_eq post_eq Let_def split: sum.splits)

lemma trace_wrapper:
  "trace (snd (wrapper_call env adapter m u d cfg st)) =
     trace (snd (axiosInstance_request env adapter m u (payload_of m d) cfg st)) @
       (case answer env adapter PROXY m u (payload_of m d) cfg st of
          Inr r \<Rightarrow> []
        | Inl e \<Rightarrow> if retry_eligible env e
                   then [Invoke DIRECT m u (payload_of m d) cfg,
                         Dispatch DIRECT (outgoing env DIRECT m u (payload_of m d) cfg
                            (snd (axiosInstance_request env adapter m u (payload_of m d) cfg st)))]
                   else [])"
  by (simp add: wrapper_call_eq Let_def fst_primary trace_fallback [of _ _ _ _ _ _ env]
      split: sum.splits)

lemma storage_wrapper:
  "localStorage (snd (wrapper_call env adapter m u d cfg st)) =
     localStorage (snd (axiosInstance_request env adapter m u (payload_of m d) cfg st))"
  by (simp add: wrapper_call_eq Let_def storage_fallback split: sum.splits)

lemma storage_primary_no_401:
  assumes "\<not> rejected_with_status 401 (answer env adapter PROXY m u d cfg st)"
  shows "localStorage (snd (axiosInstance_request env adapter m u d cfg st)) = localStorage st"
    and "trace (snd (axiosInstance_request env adapter m u d cfg st)) =
           trace st @ [Invoke PROXY m u d cfg, Dispatch PROXY (outgoing env PROXY m u d cfg st)]"
  using assms
  by (cases "answer env adapter PROXY m u d cfg st";
      auto simp: rejected_with_status_def primary_resolved primary_rejected storage_onRejected
        storage_after_dispatch trace_onRejected trace_after_dispatch)+

lemma wrapper_no_401:
  assumes "\<not> rejected_with_status 401 (answer env adapter PROXY m u (payload_of m d) cfg st)"
  shows "localStorage (snd (wrapper_call env adapter m u d cfg st)) = localStorage st"
    and "\<exists>evs. trace (snd (wrapper_call env adapter m u d cfg st)) = trace st @ evs \<and>
               removed_items evs = [] \<and> navigations evs = []"
proof -
  show "localStorage (snd (wrapper_call env adapter m u d cfg st)) = localStorage st"
    by (simp add: storage_wrapper storage_primary_no_401 (1) [OF assms])
  have "trace (snd (wrapper_call env adapter m u d cfg st)) =
      trace st @ ([Invoke PROXY m u (payload_of m d) cfg,
                   Dispatch PROXY (outgoing env PROXY m u (payload_of m d) cfg st)] @
       (case answer env adapter PROXY m u (payload_of m d) cfg st of
          Inr r \<Rightarrow> []
        | Inl e \<Rightarrow> if retry_eligible env e
                   then [Invoke DIRECT m u (payload_of m d) cfg,
                         Dispatch DIRECT (outgoing env DIRECT m u (payload_of m d) cfg
                            (snd (axiosInstance_request env adapter m u (payload_of m d) cfg st)))]
                   else []))"
    by (simp add: trace_wrapper storage_primary_no_401 (2) [OF assms])
  moreover have "removed_items ([Invoke PROXY m u (payload_of m d) cfg,
                   Dispatch PROXY (outgoing env PROXY m u (payload_of m d) cfg st)] @
       (case answer env adapter PROXY m u (payload_of m d) cfg st of
          Inr r \<Rightarrow> []
        | Inl e \<Rightarrow> if retry_eligible env e
                   then [Invoke DIRECT m u (payload_of m d) cfg,
                         Dispatch DIRECT (outgoing env DIRECT m u (payload_of m d) cfg
                            (snd (axiosInstance_request env adapter m u (payload_of m d) cfg st)))]
                   else [])) = []"
    by (simp split: sum.splits)
  moreover have "navigations ([Invoke PROXY m u (payload_of m d) cfg,
                   Dispatch PROXY (outgoing env PROXY m u (payload_of m d) cfg st)] @
       (case answer env adapter PROXY m u (payload_of m d) cfg st of
          Inr r \<Rightarrow> []
        | Inl e \<Rightarrow> if retry_eligible env e
                   then [Invoke DIRECT m u (payload_of m d) cfg,
                         Dispatch DIRECT (outgoing env DIRECT m u (payload_of m d) cfg
                            (snd (axiosInstance_request env adapter m u (payload_of m d) cfg st)))]
                   else [])) = []"
    by (simp split: sum.splits)
  ultimately show "\<exists>evs. trace (snd (wrapper_call env adapter m u d cfg st)) = trace st @ evs \<and>
               removed_items evs = [] \<and> navigations evs = []"
    by blast
qed

lemma dispatched_client_request:
  "dispatched cl (new_events st (snd (client_request env adapter cl m u d cfg st))) =
     [outgoing env cl m u d cfg st]"
proof (cases cl)
  case PROXY
  have "trace (snd (axiosInstance_request env adapter m u d cfg st)) =
      trace st @ ([Invoke PROXY m u d cfg, Dispatch PROXY (outgoing env PROXY m u d cfg st)] @
       (case answer env adapter PROXY m u d cfg st of
          Inr r \<Rightarrow> []
        | Inl e \<Rightarrow> if map_option status (response e) = Some 401 \<and> config e \<noteq> None
                   then [RemoveItem ''accessToken'', RemoveItem ''refreshToken'', SetHref ''/auth/login'']
                   else []))"
    by (simp add: trace_primary)
  then show ?thesis
    using PROXY by (simp add: client_request_def new_events_append split: sum.splits)
next
  case DIRECT
  then show ?thesis
    by (simp add: client_request_def new_events_append [OF trace_fallback [of _ _ _ _ _ _ env]])
qed

lemma probe_verdict:
  "fst (testBackendConnection env adapter st) =
     (case fst (axiosInstance_request env adapter GET ''/health'' None probe_config st) of
        Inr resp \<Rightarrow> True
      | Inl e \<Rightarrow>
          (case response e of
             None \<Rightarrow> False
           | Some r \<Rightarrow>
               get_prop (get_prop (data r) ''result'') ''result_code'' = Some (JNum 2003)
               \<or> (status r = 400 \<and> truthy (get_prop (data r) ''result''))
               \<or> status r = 401 \<or> status r = 403))"
  by (simp add: testBackendConnection_def probe_config_def
      split: prod.splits sum.splits option.splits)

subsection \<open>Facts about the concrete inputs\<close>

lemma baseURL_outgoing:
  "baseURL (outgoing env cl m u d cfg st) = d_baseURL (client_defaults env cl)"
  by (simp add: outgoing_def addRequestInterceptor_def mergeConfig_def Let_def split: option.splits)

lemma isProduction_env_production: "isProduction env_production"
  by (simp add: isProduction_def env_production_def)

lemma isProduction_env_development: "\<not> isProduction env_development"
  by (simp add: isProduction_def env_development_def)

lemma proxy_baseURL_production:
  "baseURL (outgoing env_production PROXY m u d cfg st) = []"
  by (simp add: baseURL_outgoing client_defaults_def axiosInstance_defaults_def API_BASE_URL_def
      isProduction_env_production)

lemma direct_baseURL: "baseURL (outgoing env DIRECT m u d cfg st) \<noteq> []"
  by (simp add: baseURL_outgoing client_defaults_def fallbackAxiosInstance_defaults_def
      FALLBACK_API_BASE_URL_def)

subsection \<open>C1: when the fallback client is used\<close>

text \<open>
  C1. Let a call of \<^verbatim>\<open>axiosWithFallback.get\<close> or \<^verbatim>\<open>axiosWithFallback.post\<close> have its
  primary attempt fail with error \<open>e\<close>. The fallback client is then invoked exactly once,
  with the same url, data and config, if the deployment is flagged as production and \<open>e\<close>
  has code \<^verbatim>\<open>ERR_NETWORK\<close> or a message containing \<^verbatim>\<open>CORS\<close> or \<^verbatim>\<open>blocked\<close>;
  otherwise it is not invoked at all, and the wrapper ends exactly as the primary attempt
  did. In particular, outside production the wrapper rejects with \<open>e\<close> and nothing is sent
  through the fallback client.
\<close>

theorem fallback_invoked_iff_retry_eligible:
  assumes "fst (axiosInstance_request env adapter m u (payload_of m d) cfg st) = Inl e"
  shows "invocations DIRECT (new_events st (snd (wrapper_call env adapter m u d cfg st))) =
           (if isProduction env \<and>
               (code e = Some ''ERR_NETWORK'' \<or> msg_includes (message e) ''CORS'' \<or>
                msg_includes (message e) ''blocked'')
            then [Invoke DIRECT m u (payload_of m d) cfg] else [])
       \<and> (\<not> (isProduction env \<and>
               (code e = Some ''ERR_NETWORK'' \<or> msg_includes (message e) ''CORS'' \<or>
                msg_includes (message e) ''blocked'')) \<longrightarrow>
            wrapper_call env adapter m u d cfg st =
              axiosInstance_request env adapter m u (payload_of m d) cfg st)
       \<and> (\<not> isProduction env \<longrightarrow>
            fst (wrapper_call env adapter m u d cfg st) = Inl e \<and>
            dispatched DIRECT (new_events st (snd (wrapper_call env adapter m u d cfg st))) = [])"
proof -
  let ?p = "axiosInstance_request env adapter m u (payload_of m d) cfg st"
  from assms have ans: "answer env adapter PROXY m u (payload_of m d) cfg st = Inl e"
    by (simp add: fst_primary)
  have tr: "trace (snd (wrapper_call env adapter m u d cfg st)) =
      trace st @ [Invoke PROXY m u (payload_of m d) cfg,
                  Dispatch PROXY (outgoing env PROXY m u (payload_of m d) cfg st)] @
        (if map_option status (response e) = Some 401 \<and> config e \<noteq> None
         then [RemoveItem ''accessToken'', RemoveItem ''refreshToken'', SetHref ''/auth/login'']
         else []) @
        (if retry_eligible env e
         then [Invoke DIRECT m u (payload_of m d) cfg,
               Dispatch DIRECT (outgoing env DIRECT m u (payload_of m d) cfg (snd ?p))]
         else [])"
    by (simp add: trace_wrapper trace_primary ans)
  have one: "invocations DIRECT (new_events st (snd (wrapper_call env adapter m u d cfg st))) =
      (if retry_eligible env e then [Invoke DIRECT m u (payload_of m d) cfg] else [])"
    by (simp add: new_events_append [OF tr])
  have two: "\<not> retry_eligible env e \<Longrightarrow> wrapper_call env adapter m u d cfg st = ?p"
    by (simp add: wrapper_call_eq Let_def assms)
  have three: "dispatched DIRECT (new_events st (snd (wrapper_call env adapter m u d cfg st))) = []"
    if "\<not> isProduction env"
    using that by (simp add: new_events_append [OF tr] retry_eligible_def)
  show ?thesis
    using one two three assms by (auto simp: retry_eligible_def)
qed

theorem fallback_invoked_iff_retry_eligible_witness:
  "fst (axiosInstance_request env_production net_proxy_down POST ''/api/orders''
          (payload_of POST (Some (JNum 7))) None browser0) =
     Inl (network_error (outgoing env_production PROXY POST ''/api/orders'' (Some (JNum 7)) None browser0))
   \<and> invocations DIRECT (new_events browser0
         (snd (wrapper_call env_production net_proxy_down POST ''/api/orders'' (Some (JNum 7)) None browser0))) =
       [Invoke DIRECT POST ''/api/orders'' (Some (JNum 7)) None]"
proof -
  have h: "fst (axiosInstance_request env_production net_proxy_down POST ''/api/orders''
          (payload_of POST (Some (JNum 7))) None browser0) =
     Inl (network_error (outgoing env_production PROXY POST ''/api/orders'' (Some (JNum 7)) None browser0))"
    by (simp add: fst_primary answer_def net_proxy_down_def proxy_baseURL_production payload_of_def)
  show ?thesis
    using h fallback_invoked_iff_retry_eligible [OF h]
    by (simp add: isProduction_env_production network_error_def payload_of_def)
qed

subsection \<open>C2: the connectivity probe\<close>

text \<open>
  C2 as worded (any server response at all gives \<open>True\<close>) does not hold: a response with
  HTTP status 500 and a well-formed body whose result code is not 2003 gives \<open>False\<close>.
\<close>

theorem probe_any_response_counterexample:
  "answer env_production (net_status 500) PROXY GET ''/health'' None probe_config browser0 =
     Inl (status_error 500 (outgoing env_production PROXY GET ''/health'' None probe_config browser0))
   \<and> response (status_error 500 (outgoing env_production PROXY GET ''/health'' None probe_config browser0)) =
       Some \<lparr>status = 500, data = Some (JObj [(''result'', JObj [(''result_code'', JNum 5000)])])\<rparr>
   \<and> fst (testBackendConnection env_production (net_status 500) browser0) = False"
proof -
  let ?e = "status_error 500 (outgoing env_production PROXY GET ''/health'' None probe_config browser0)"
  have a: "answer env_production (net_status 500) PROXY GET ''/health'' None probe_config browser0 = Inl ?e"
    by (simp add: answer_def net_status_def)
  have r: "response ?e =
       Some \<lparr>status = 500, data = Some (JObj [(''result'', JObj [(''result_code'', JNum 5000)])])\<rparr>"
    by (simp add: status_error_def)
  have "fst (testBackendConnection env_production (net_status 500) browser0) = False"
    by (simp add: probe_verdict fst_primary a r)
  with a r show ?thesis by simp
qed

text \<open>
  C2, as the code decides it: \<^verbatim>\<open>testBackendConnection\<close> returns \<open>True\<close> when the request
  succeeds. When it fails, the result is \<open>False\<close> if no response was received; with a
  response it is \<open>True\<close> exactly when the body has \<^verbatim>\<open>result.result_code\<close> equal to 2003,
  or the status is 400 and the body has a truthy \<^verbatim>\<open>result\<close>, or the status is 401 or
  403.
\<close>

theorem probe_result_characterised:
  "fst (testBackendConnection env adapter st) =
     (case answer env adapter PROXY GET ''/health'' None probe_config st of
        Inr resp \<Rightarrow> True
      | Inl e \<Rightarrow>
          (case response e of
             None \<Rightarrow> False
           | Some r \<Rightarrow>
               get_prop (get_prop (data r) ''result'') ''result_code'' = Some (JNum 2003)
               \<or> (status r = 400 \<and> truthy (get_prop (data r) ''result''))
               \<or> status r = 401 \<or> status r = 403))"
  by (simp only: probe_verdict fst_primary)

theorem probe_result_characterised_witness:
  "fst (testBackendConnection env_development (net_status 403) browser0) = True"
  using probe_result_characterised [of env_development "net_status 403" browser0]
  by (simp add: answer_def net_status_def status_error_def)

subsection \<open>C3: what a 401 does on the primary client\<close>

text \<open>
  C3 as worded (every client response with status 401 clears the credentials and navigates)
  does not hold. In production, with the proxy unreachable and the backend answering 401 to
  the retry, the wrapper rejects with the 401 while \<^verbatim>\<open>accessToken\<close> is still stored and
  nothing has navigated. And a 401 error that reaches the primary client's handler without
  its \<^verbatim>\<open>config\<close> is rejected with the same lack of effect.
\<close>

theorem every_401_clears_credentials_counterexample:
  "rejected_with_status 401
     (fst (wrapper_call env_production net_proxy_down_backend_401 GET ''/api/user/me'' None None browser0))
   \<and> localStorage
       (snd (wrapper_call env_production net_proxy_down_backend_401 GET ''/api/user/me'' None None browser0))
       ''accessToken'' = Some ''user-token''
   \<and> navigations (trace
       (snd (wrapper_call env_production net_proxy_down_backend_401 GET ''/api/user/me'' None None browser0)))
       = []
   \<and> rejected_with_status 401
       (fst (axiosInstance_request env_development net_401_without_config GET ''/api/user/me'' None None browser0))
   \<and> localStorage
       (snd (axiosInstance_request env_development net_401_without_config GET ''/api/user/me'' None None browser0))
       ''accessToken'' = Some ''user-token''
   \<and> navigations (trace
       (snd (axiosInstance_request env_development net_401_without_config GET ''/api/user/me'' None None browser0)))
       = []"
proof -
  let ?p = "axiosInstance_request env_production net_proxy_down_backend_401 GET ''/api/user/me'' None None browser0"
  let ?e = "network_error (outgoing env_production PROXY GET ''/api/user/me'' None None browser0)"
  let ?w = "wrapper_call env_production net_proxy_down_backend_401 GET ''/api/user/me'' None None browser0"
  have a: "answer env_production net_proxy_down_backend_401 PROXY GET ''/api/user/me'' None None browser0 = Inl ?e"
    by (simp add: answer_def net_proxy_down_backend_401_def proxy_baseURL_production)
  have p: "?p = (Inl ?e, after_dispatch env_production net_proxy_down_backend_401 PROXY GET ''/api/user/me'' None None browser0)"
    by (simp add: primary_rejected [OF a] response_onRejected_def network_error_def Let_def)
  have el: "retry_eligible env_production ?e"
    by (simp add: retry_eligible_def isProduction_env_production network_error_def)
  have w: "?w = fallbackAxiosInstance_request net_proxy_down_backend_401 GET ''/api/user/me'' None None (snd ?p)"
    by (simp add: wrapper_call_eq payload_of_def Let_def p el)
  have fb: "answer env_production net_proxy_down_backend_401 DIRECT GET ''/api/user/me'' None None (snd ?p)
      = Inl (status_error 401 (outgoing env_production DIRECT GET ''/api/user/me'' None None (snd ?p)))"
    using direct_baseURL [of env_production GET "''/api/user/me''" None None "snd ?p"]
    by (simp add: answer_def net_proxy_down_backend_401_def)
  have w1: "rejected_with_status 401 (fst ?w)"
    by (simp add: w fallback_request_eq [of _ _ _ _ _ _ env_production] fb rejected_with_status_def
        status_error_def)
  have "localStorage (snd ?w) = localStorage browser0"
    by (simp add: w fallback_request_eq [of _ _ _ _ _ _ env_production] storage_after_dispatch p)
  then have w2: "localStorage (snd ?w) ''accessToken'' = Some ''user-token''"
    by (simp add: browser0_def)
  have "navigations (trace (snd ?w)) = navigations (trace browser0)"
    by (simp add: w trace_fallback [of _ _ _ _ _ _ env_production] p trace_after_dispatch)
  then have w3: "navigations (trace (snd ?w)) = []"
    by (simp add: browser0_def)
  let ?q = "axiosInstance_request env_development net_401_without_config GET ''/api/user/me'' None None browser0"
  let ?f = "(status_error 401 (outgoing env_development PROXY GET ''/api/user/me'' None None browser0))\<lparr>config := None\<rparr>"
  have b: "answer env_development net_401_without_config PROXY GET ''/api/user/me'' None None browser0 = Inl ?f"
    by (simp add: answer_def net_401_without_config_def)
  have q: "?q = (Inl ?f, after_dispatch env_development net_401_without_config PROXY GET ''/api/user/me'' None None browser0)"
    by (simp add: primary_rejected [OF b] response_onRejected_def Let_def)
  have q1: "rejected_with_status 401 (fst ?q)"
    by (simp add: q rejected_with_status_def status_error_def)
  have "localStorage (snd ?q) = localStorage browser0"
    by (simp add: q storage_after_dispatch)
  then have q2: "localStorage (snd ?q) ''accessToken'' = Some ''user-token''"
    by (simp add: browser0_def)
  have "navigations (trace (snd ?q)) = navigations (trace browser0)"
    by (simp add: q trace_after_dispatch)
  then have q3: "navigations (trace (snd ?q)) = []"
    by (simp add: browser0_def)
  show ?thesis
    using w1 w2 w3 q1 q2 q3 by blast
qed

text \<open>
  C3, for the primary client and an error that carries its request configuration: when the
  primary client's request is answered with an error of HTTP status 401, the entries
  \<^verbatim>\<open>accessToken\<close> and \<^verbatim>\<open>refreshToken\<close> are each removed once, in this order, then
  \<^verbatim>\<open>window.location.href\<close> is set to \<^verbatim>\<open>/auth/login\<close>, and the call rejects with the
  original error. All other entries of \<^verbatim>\<open>localStorage\<close> stay.
\<close>

theorem primary_401_clears_credentials_then_rejects:
  assumes "answer env adapter PROXY m u d cfg st = Inl e"
    and "map_option status (response e) = Some 401"
    and "config e \<noteq> None"
  shows "fst (axiosInstance_request env adapter m u d cfg st) = Inl e
       \<and> new_events st (snd (axiosInstance_request env adapter m u d cfg st)) =
           [Invoke PROXY m u d cfg, Dispatch PROXY (outgoing env PROXY m u d cfg st),
            RemoveItem ''accessToken'', RemoveItem ''refreshToken'', SetHref ''/auth/login'']
       \<and> localStorage (snd (axiosInstance_request env adapter m u d cfg st)) =
           (localStorage st)(''accessToken'' := None, ''refreshToken'' := None)
       \<and> location_href (snd (axiosInstance_request env adapter m u d cfg st)) = ''/auth/login''"
proof -
  have tr: "trace (snd (axiosInstance_request env adapter m u d cfg st)) = trace st @
           [Invoke PROXY m u d cfg, Dispatch PROXY (outgoing env PROXY m u d cfg st),
            RemoveItem ''accessToken'', RemoveItem ''refreshToken'', SetHref ''/auth/login'']"
    using assms by (simp add: trace_primary)
  have ev: "new_events st (snd (axiosInstance_request env adapter m u d cfg st)) =
           [Invoke PROXY m u d cfg, Dispatch PROXY (outgoing env PROXY m u d cfg st),
            RemoveItem ''accessToken'', RemoveItem ''refreshToken'', SetHref ''/auth/login'']"
    by (rule new_events_append [OF tr])
  have rest: "fst (axiosInstance_request env adapter m u d cfg st) = Inl e
       \<and> localStorage (snd (axiosInstance_request env adapter m u d cfg st)) =
           (localStorage st)(''accessToken'' := None, ''refreshToken'' := None)
       \<and> location_href (snd (axiosInstance_request env adapter m u d cfg st)) = ''/auth/login''"
    using assms
    by (simp add: fst_primary primary_rejected response_onRejected_def Let_def
        storage_after_dispatch)
  show ?thesis
    using ev rest by simp
qed

theorem primary_401_clears_credentials_then_rejects_witness:
  "answer env_development (net_status 401) PROXY GET ''/api/user/me'' None None browser0 =
     Inl (status_error 401 (outgoing env_development PROXY GET ''/api/user/me'' None None browser0))
   \<and> removed_items (new_events browser0
        (snd (axiosInstance_request env_development (net_status 401) GET ''/api/user/me'' None None browser0)))
       = [''accessToken'', ''refreshToken'']
   \<and> navigations (new_events browser0
        (snd (axiosInstance_request env_development (net_status 401) GET ''/api/user/me'' None None browser0)))
       = [''/auth/login'']
   \<and> localStorage (snd (axiosInstance_request env_development (net_status 401) GET ''/api/user/me'' None None browser0))
        ''accessToken'' = None
   \<and> localStorage (snd (axiosInstance_request env_development (net_status 401) GET ''/api/user/me'' None None browser0))
        ''storeUserAccessToken'' = Some ''owner-token''"
proof -
  let ?e = "status_error 401 (outgoing env_development PROXY GET ''/api/user/me'' None None browser0)"
  have h: "answer env_development (net_status 401) PROXY GET ''/api/user/me'' None None browser0 = Inl ?e"
    by (simp add: answer_def net_status_def)
  have s: "map_option status (response ?e) = Some 401"
    by (simp add: status_error_def)
  have c: "config ?e \<noteq> None"
    by (simp add: status_error_def)
  show ?thesis
    using h primary_401_clears_credentials_then_rejects [OF h s c]
    by (simp add: browser0_def)
qed

subsection \<open>C4: the body of a proxied POST\<close>

text \<open>
  C4. For \<^verbatim>\<open>POST /api/orders\<close> with a parsed JSON body, the \<^verbatim>\<open>/api\<close> handler sets
  \<^verbatim>\<open>Content-Type\<close> and nothing else: it writes no body to the outgoing request and leaves
  \<^verbatim>\<open>Content-Length\<close> as it was, so the request that is sent has an empty list of written
  chunks. On the same input the \<^verbatim>\<open>/open-api\<close> handler writes the re-serialized body and
  sets \<^verbatim>\<open>Content-Length\<close> to its byte length.
\<close>

theorem api_route_leaves_body_unwritten:
  "p_written (onProxyReq_api post_api_orders proxyReq) = p_written proxyReq
   \<and> p_headers (onProxyReq_api post_api_orders proxyReq) ''Content-Length'' =
       p_headers proxyReq ''Content-Length''
   \<and> p_headers (onProxyReq_api post_api_orders proxyReq) ''Content-Type'' =
       Some (HStr ''application/json'')
   \<and> map p_written (snd (api_route forward post_api_orders res0)) = [[]]
   \<and> p_written (onProxyReq_open_api stringify post_api_orders proxyReq) =
       p_written proxyReq @ [stringify (JObj [(''menuId'', JNum 7), (''count'', JNum 2)])]
   \<and> p_headers (onProxyReq_open_api stringify post_api_orders proxyReq) ''Content-Length'' =
       Some (HNum (length (stringify (JObj [(''menuId'', JNum 7), (''count'', JNum 2)]))))"
  by (simp add: onProxyReq_api_def onProxyReq_open_api_def post_api_orders_def api_route_def
      createProxyMiddleware_def proxy_request_of_def Let_def split: sum.splits)

subsection \<open>C5: which error the wrapper propagates\<close>

text \<open>
  C5. Let the primary attempt of \<^verbatim>\<open>get\<close> or \<^verbatim>\<open>post\<close> fail with \<open>e\<close>. If the retry
  condition holds and the fallback attempt fails with \<open>fe\<close>, the wrapper rejects with \<open>fe\<close>.
  If the retry condition does not hold, it rejects with \<open>e\<close>. In every case the wrapper's
  outcome is either the rejection with \<open>e\<close> or, under the retry condition only, the outcome
  of the fallback attempt: no other error is replaced.
\<close>

theorem fallback_error_supersedes_primary_error:
  assumes "fst (axiosInstance_request env adapter m u (payload_of m d) cfg st) = Inl e"
  shows "(retry_eligible env e \<and>
          answer env adapter DIRECT m u (payload_of m d) cfg
            (snd (axiosInstance_request env adapter m u (payload_of m d) cfg st)) = Inl fe \<longrightarrow>
          fst (wrapper_call env adapter m u d cfg st) = Inl fe)
       \<and> (\<not> retry_eligible env e \<longrightarrow> fst (wrapper_call env adapter m u d cfg st) = Inl e)
       \<and> (fst (wrapper_call env adapter m u d cfg st) = Inl e \<or>
          retry_eligible env e \<and>
          fst (wrapper_call env adapter m u d cfg st) =
            answer env adapter DIRECT m u (payload_of m d) cfg
              (snd (axiosInstance_request env adapter m u (payload_of m d) cfg st)))"
  using assms
  by (simp add: wrapper_call_eq Let_def fallback_request_eq [of _ _ _ _ _ _ env])

theorem fallback_error_supersedes_primary_error_witness:
  "fst (wrapper_call env_production net_all_down GET ''/api/store/search'' None None browser0) =
     Inl (timeout_error (outgoing env_production DIRECT GET ''/api/store/search'' None None browser0))
   \<and> fst (axiosInstance_request env_production net_all_down GET ''/api/store/search'' None None browser0) =
     Inl (network_error (outgoing env_production PROXY GET ''/api/store/search'' None None browser0))"
proof -
  let ?p = "axiosInstance_request env_production net_all_down GET ''/api/store/search''
              None None browser0"
  let ?e = "network_error (outgoing env_production PROXY GET ''/api/store/search'' None None browser0)"
  let ?fe = "timeout_error (outgoing env_production DIRECT GET ''/api/store/search'' None None browser0)"
  have h: "fst ?p = Inl ?e"
    by (simp add: fst_primary answer_def net_all_down_def proxy_baseURL_production payload_of_def)
  have st: "localStorage (snd ?p) = localStorage browser0"
    by (simp add: primary_rejected [OF h [unfolded fst_primary]] response_onRejected_def
        network_error_def Let_def storage_after_dispatch)
  have el: "retry_eligible env_production ?e"
    by (simp add: retry_eligible_def isProduction_env_production network_error_def)
  have fb: "answer env_production net_all_down DIRECT GET ''/api/store/search'' None None
              (snd ?p) = Inl ?fe"
    using direct_baseURL [of env_production GET "''/api/store/search''" None None "snd ?p"]
    by (simp add: answer_def net_all_down_def payload_of_def outgoing_def st)
  show ?thesis
    using h el fb
      fallback_error_supersedes_primary_error
        [of env_production net_all_down GET "''/api/store/search''" None None browser0 ?e ?fe]
    by (simp add: payload_of_def)
qed

subsection \<open>C6: the fallback client has no 401 handling\<close>

text \<open>
  C6. When a request made through the fallback client is answered with an error of HTTP
  status 401, the client rejects with that very error; \<^verbatim>\<open>localStorage\<close> and
  \<^verbatim>\<open>window.location.href\<close> are as before, no entry is removed and no navigation is issued.
\<close>

theorem fallback_client_ignores_401:
  assumes "answer env adapter DIRECT m u d cfg st = Inl e"
    and "map_option status (response e) = Some 401"
  shows "fst (fallbackAxiosInstance_request adapter m u d cfg st) = Inl e
       \<and> localStorage (snd (fallbackAxiosInstance_request adapter m u d cfg st)) = localStorage st
       \<and> location_href (snd (fallbackAxiosInstance_request adapter m u d cfg st)) = location_href st
       \<and> removed_items (new_events st (snd (fallbackAxiosInstance_request adapter m u d cfg st))) = []
       \<and> navigations (new_events st (snd (fallbackAxiosInstance_request adapter m u d cfg st))) = []"
  using assms
  by (simp add: fallback_request_eq [of _ _ _ _ _ _ env] storage_after_dispatch
      new_events_append [OF trace_after_dispatch])

theorem fallback_client_ignores_401_witness:
  "answer env_production (net_status 401) DIRECT GET ''/api/user/me'' None None browser0 =
     Inl (status_error 401 (outgoing env_production DIRECT GET ''/api/user/me'' None None browser0))
   \<and> localStorage (snd (fallbackAxiosInstance_request (net_status 401) GET ''/api/user/me'' None None browser0))
       ''accessToken'' = Some ''user-token''
   \<and> location_href (snd (fallbackAxiosInstance_request (net_status 401) GET ''/api/user/me'' None None browser0))
       = ''/orders''"
proof -
  let ?e = "status_error 401 (outgoing env_production DIRECT GET ''/api/user/me'' None None browser0)"
  have h: "answer env_production (net_status 401) DIRECT GET ''/api/user/me'' None None browser0 = Inl ?e"
    by (simp add: answer_def net_status_def)
  have s: "map_option status (response ?e) = Some 401"
    by (simp add: status_error_def)
  show ?thesis
    using h fallback_client_ignores_401 [OF h s]
    by (simp add: browser0_def)
qed

subsection \<open>C7: the credential header\<close>

text \<open>
  C7. Each call of either client instance hands exactly one request to the adapter, the
  one the request interceptor produced. Its \<^verbatim>\<open>authorization-token\<close> header is the stored
  \<^verbatim>\<open>accessToken\<close>, verbatim, when that is present and not empty; else the stored
  \<^verbatim>\<open>storeUserAccessToken\<close>, verbatim, when that is present and not empty; when neither
  is, the interceptor leaves the request as it was built. No other header is touched.
\<close>

theorem credential_header_by_precedence:
  "dispatched cl (new_events st (snd (client_request env adapter cl m u d cfg st))) =
     [outgoing env cl m u d cfg st]
   \<and> (\<forall>t. localStorage st ''accessToken'' = Some t \<and> t \<noteq> [] \<longrightarrow>
          headers (outgoing env cl m u d cfg st) ''authorization-token'' = Some t)
   \<and> (\<forall>t. \<not> truthy_str (localStorage st ''accessToken'') \<and>
          localStorage st ''storeUserAccessToken'' = Some t \<and> t \<noteq> [] \<longrightarrow>
          headers (outgoing env cl m u d cfg st) ''authorization-token'' = Some t)
   \<and> (\<not> truthy_str (localStorage st ''accessToken'') \<and>
       \<not> truthy_str (localStorage st ''storeUserAccessToken'') \<longrightarrow>
          outgoing env cl m u d cfg st = mergeConfig (client_defaults env cl) m u d cfg)
   \<and> (\<forall>k. k \<noteq> ''authorization-token'' \<longrightarrow>
          headers (outgoing env cl m u d cfg st) k =
          headers (mergeConfig (client_defaults env cl) m u d cfg) k)"
proof -
  have "\<forall>t. localStorage st ''accessToken'' = Some t \<and> t \<noteq> [] \<longrightarrow>
          headers (outgoing env cl m u d cfg st) ''authorization-token'' = Some t"
    by (simp add: outgoing_def addRequestInterceptor_def Let_def)
  moreover have "\<forall>t. \<not> truthy_str (localStorage st ''accessToken'') \<and>
          localStorage st ''storeUserAccessToken'' = Some t \<and> t \<noteq> [] \<longrightarrow>
          headers (outgoing env cl m u d cfg st) ''authorization-token'' = Some t"
    by (simp add: outgoing_def addRequestInterceptor_def Let_def)
  moreover have "\<not> truthy_str (localStorage st ''accessToken'') \<and>
       \<not> truthy_str (localStorage st ''storeUserAccessToken'') \<longrightarrow>
          outgoing env cl m u d cfg st = mergeConfig (client_defaults env cl) m u d cfg"
    by (cases "localStorage st ''storeUserAccessToken''")
       (simp_all add: outgoing_def addRequestInterceptor_def Let_def)
  moreover have "\<forall>k. k \<noteq> ''authorization-token'' \<longrightarrow>
          headers (outgoing env cl m u d cfg st) k =
          headers (mergeConfig (client_defaults env cl) m u d cfg) k"
    by (simp add: outgoing_def addRequestInterceptor_def Let_def split: option.splits)
  ultimately show ?thesis
    using dispatched_client_request [of cl st env adapter m u d cfg] by blast
qed

theorem credential_header_by_precedence_witness:
  "headers (outgoing env_production DIRECT GET ''/api/orders'' None None browser0)
      ''authorization-token'' = Some ''user-token''
   \<and> dispatched DIRECT (new_events browser0
        (snd (client_request env_production net_ok DIRECT GET ''/api/orders'' None None browser0))) =
       [outgoing env_production DIRECT GET ''/api/orders'' None None browser0]"
  using credential_header_by_precedence
    [of DIRECT browser0 env_production net_ok GET "''/api/orders''" None None]
  by (simp add: browser0_def)

subsection \<open>C8: requests only read the credentials\<close>

text \<open>
  C8. Issue the same \<^verbatim>\<open>axiosWithFallback.get\<close> twice. If neither primary attempt is
  answered with an error of HTTP status 401, \<^verbatim>\<open>localStorage\<close> after the first and after
  the second call is what it was before the first, and no entry was removed on the way.
\<close>

theorem get_twice_leaves_storage_unchanged:
  assumes "s1 = snd (axiosWithFallback_get env adapter u cfg st)"
    and "s2 = snd (axiosWithFallback_get env adapter u cfg s1)"
    and "\<not> rejected_with_status 401 (answer env adapter PROXY GET u None cfg st)"
    and "\<not> rejected_with_status 401 (answer env adapter PROXY GET u None cfg s1)"
  shows "localStorage s1 = localStorage st \<and> localStorage s2 = localStorage st
       \<and> removed_items (new_events st s2) = []"
proof -
  have w1: "s1 = snd (wrapper_call env adapter GET u None cfg st)"
    and w2: "s2 = snd (wrapper_call env adapter GET u None cfg s1)"
    using assms (1,2) by (simp_all add: wrapper_call_def)
  have n1: "\<not> rejected_with_status 401 (answer env adapter PROXY GET u (payload_of GET None) cfg st)"
    and n2: "\<not> rejected_with_status 401 (answer env adapter PROXY GET u (payload_of GET None) cfg s1)"
    using assms (3,4) by (simp_all add: payload_of_def)
  have a: "localStorage s1 = localStorage st"
    unfolding w1 by (rule wrapper_no_401 (1) [OF n1])
  have b: "localStorage s2 = localStorage s1"
    unfolding w2 by (rule wrapper_no_401 (1) [OF n2])
  obtain evs1 where e1: "trace s1 = trace st @ evs1" "removed_items evs1 = []"
    using wrapper_no_401 (2) [OF n1] w1 by auto
  obtain evs2 where e2: "trace s2 = trace s1 @ evs2" "removed_items evs2 = []"
    using wrapper_no_401 (2) [OF n2] w2 by auto
  have "trace s2 = trace st @ (evs1 @ evs2)"
    using e1 e2 by simp
  then have "new_events st s2 = evs1 @ evs2"
    by (rule new_events_append)
  then have c: "removed_items (new_events st s2) = []"
    using e1 e2 by simp
  show ?thesis using a b c by simp
qed

theorem get_twice_leaves_storage_unchanged_witness:
  "\<not> rejected_with_status 401
       (answer env_production net_ok PROXY GET ''/api/store/search'' None None browser0)
   \<and> localStorage (snd (axiosWithFallback_get env_production net_ok ''/api/store/search'' None
        (snd (axiosWithFallback_get env_production net_ok ''/api/store/search'' None browser0))))
      = localStorage browser0"
proof -
  let ?s1 = "snd (axiosWithFallback_get env_production net_ok ''/api/store/search'' None browser0)"
  let ?s2 = "snd (axiosWithFallback_get env_production net_ok ''/api/store/search'' None ?s1)"
  have n1: "\<not> rejected_with_status 401
       (answer env_production net_ok PROXY GET ''/api/store/search'' None None browser0)"
    by (simp add: answer_def net_ok_def rejected_with_status_def)
  have n2: "\<not> rejected_with_status 401
       (answer env_production net_ok PROXY GET ''/api/store/search'' None None ?s1)"
    by (simp add: answer_def net_ok_def rejected_with_status_def)
  show ?thesis
    using n1 get_twice_leaves_storage_unchanged [OF refl refl n1 n2]
    by simp
qed

subsection \<open>C9: production mode and the primary base URL\<close>

text \<open>
  C9 as worded (production mode is determined by \<^verbatim>\<open>NODE_ENV\<close>) does not hold: with
  \<^verbatim>\<open>NODE_ENV\<close> set to \<^verbatim>\<open>development\<close> and the page served from a host whose name
  contains \<^verbatim>\<open>herokuapp.com\<close>, the flag is set and the primary base URL is empty.
\<close>

theorem production_mode_by_NODE_ENV_counterexample:
  "NODE_ENV env_heroku_preview \<noteq> Some ''production''
   \<and> isProduction env_heroku_preview
   \<and> API_BASE_URL env_heroku_preview = []"
  by (simp add: isProduction_def API_BASE_URL_def env_heroku_preview_def)

text \<open>
  C9, with the second way into production mode: the flag is set exactly when
  \<^verbatim>\<open>NODE_ENV\<close> is \<^verbatim>\<open>production\<close> or the page's host name contains
  \<^verbatim>\<open>herokuapp.com\<close>; the primary base URL is the empty string when the flag is set and
  the absolute fallback origin otherwise.
\<close>

theorem production_mode_selects_base_url:
  "isProduction env =
     (NODE_ENV env = Some ''production'' \<or>
      (\<exists>h p q. window_hostname env = Some h \<and> h = p @ ''herokuapp.com'' @ q))
   \<and> API_BASE_URL env = (if isProduction env then [] else FALLBACK_API_BASE_URL)"
  by (auto simp: isProduction_def API_BASE_URL_def FALLBACK_API_BASE_URL_def str_includes_iff
      split: option.splits)

theorem production_mode_selects_base_url_witness:
  "isProduction env_production \<and> API_BASE_URL env_production = []
   \<and> \<not> isProduction env_development \<and> API_BASE_URL env_development = FALLBACK_API_BASE_URL"
  using production_mode_selects_base_url [of env_production]
    production_mode_selects_base_url [of env_development]
  by (simp add: env_production_def env_development_def str_includes_iff [symmetric])

subsection \<open>C10: forwarding failures\<close>

text \<open>
  C10. When forwarding fails with error \<open>err\<close> on the \<^verbatim>\<open>/api\<close> route, the response is
  status 500 with the payload \<^verbatim>\<open>{error: 'Proxy error'}\<close>; on the \<^verbatim>\<open>/open-api\<close> route
  it is status 500 with \<^verbatim>\<open>{error: 'Proxy error', message: err.message}\<close>. In both cases
  the route yields a response, and the only outgoing request is the one that failed: the
  handlers send nothing again. Both error handlers give status 500 for every error.
\<close>

theorem proxy_failure_becomes_500:
  "(forward (onProxyReq_api req (proxy_request_of req)) = Inl err \<longrightarrow>
      api_route forward req res =
        (res\<lparr>statusCode := 500, sent := Some (Json (JObj [(''error'', JStr ''Proxy error'')]))\<rparr>,
         [onProxyReq_api req (proxy_request_of req)]))
   \<and> (forward (onProxyReq_open_api stringify req (proxy_request_of req)) = Inl err \<longrightarrow>
      open_api_route stringify forward req res =
        (res\<lparr>statusCode := 500,
             sent := Some (Json (JObj [(''error'', JStr ''Proxy error''),
                                       (''message'', JStr (err_message err))]))\<rparr>,
         [onProxyReq_open_api stringify req (proxy_request_of req)]))
   \<and> statusCode (onError_api err req res) = 500
   \<and> statusCode (onError_open_api err req res) = 500"
  by (simp add: api_route_def open_api_route_def createProxyMiddleware_def onError_api_def
      onError_open_api_def Let_def)

theorem proxy_failure_becomes_500_witness:
  "upstream_refuses (onProxyReq_api post_api_orders (proxy_request_of post_api_orders)) =
     Inl \<lparr>err_message = ''connect ECONNREFUSED''\<rparr>
   \<and> upstream_refuses
        (onProxyReq_open_api compact_json post_api_orders (proxy_request_of post_api_orders)) =
     Inl \<lparr>err_message = ''connect ECONNREFUSED''\<rparr>
   \<and> fst (api_route upstream_refuses post_api_orders res0) =
       \<lparr>statusCode = 500, sent = Some (Json (JObj [(''error'', JStr ''Proxy error'')]))\<rparr>
   \<and> fst (open_api_route compact_json upstream_refuses post_api_orders res0) =
       \<lparr>statusCode = 500,
        sent = Some (Json (JObj [(''error'', JStr ''Proxy error''),
                                 (''message'', JStr ''connect ECONNREFUSED'')]))\<rparr>
   \<and> length (snd (api_route upstream_refuses post_api_orders res0)) = 1
   \<and> length (snd (open_api_route compact_json upstream_refuses post_api_orders res0)) = 1"
proof -
  have h: "upstream_refuses (onProxyReq_api post_api_orders (proxy_request_of post_api_orders)) =
     Inl \<lparr>err_message = ''connect ECONNREFUSED''\<rparr>"
    by (simp add: upstream_refuses_def)
  have g: "upstream_refuses
        (onProxyReq_open_api compact_json post_api_orders (proxy_request_of post_api_orders)) =
     Inl \<lparr>err_message = ''connect ECONNREFUSED''\<rparr>"
    by (simp add: upstream_refuses_def)
  show ?thesis
    using h g proxy_failure_becomes_500
      [of upstream_refuses post_api_orders "\<lparr>err_message = ''connect ECONNREFUSED''\<rparr>"
          res0 compact_json]
    by (simp add: res0_def)
qed

end
